theory Spec2Isabelle
  imports Main "HOL-Library.Sublist"
begin

section \<open>Values and host objects\<close>

text \<open>
  The two extensions are TypeScript modules loaded by the Pi coding agent. Their handlers
  receive plain JavaScript objects from the host and hand plain JavaScript values back, so
  the embedding works over a small universe of JavaScript values: what a handler returns is
  a value of this universe, and so is every property of a tool call's \<open>input\<close> object.
  Strings are \<open>string\<close>; the only string operation of the code is a substring search for an
  ASCII needle, which does not depend on how a character outside ASCII is encoded.
\<close>

datatype js_value =
    JUndefined
  | JNull
  | JBool bool
  | JNumber int
  | JString string
  | JArray "js_value list"
  | JObject "(string \<times> js_value) list"

text \<open>
  The one exception the code can raise: reading a property of \<open>undefined\<close> or \<open>null\<close>, or
  calling something that is not a function.
\<close>

datatype js_error = TypeError

text \<open>
  A tool-call event as the host emits it: \<open>{ type: "tool_call", toolCallId, toolName, input }\<close>.
  \<open>toolName\<close> is the tool-type discriminator; \<open>input\<close> is the object of the tool's
  arguments, kept as its list of properties. For the bash tool the host declares
  \<open>input: { command: string; timeout?: number }\<close>, but the discriminator and the payload
  are separate fields of the object, and the model keeps them separate. Reading a property
  is \<open>map_of\<close> on the list; an object has each property name once.
\<close>

record ToolCallEvent =
  toolCallId :: string
  toolName :: string
  input :: "(string \<times> js_value) list"

text \<open>
  The severity levels of \<open>ctx.ui.notify(message, level)\<close>:
  \<open>"info" | "success" | "warning" | "error"\<close>.
\<close>

datatype notify_level = Info | Success | Warning | Error

text \<open>
  The context object handed to every handler. Of the host's state behind it, the model
  keeps the trace of calls made to \<open>ctx.ui.notify\<close>, each with its message and level, in
  the order they were made.
\<close>

record ExtensionUIContext =
  notify_calls :: "(string \<times> notify_level) list"

record ExtensionContext =
  ui :: ExtensionUIContext
  hasUI :: bool
  cwd :: string

text \<open>
  Modelled from the spec: the host's notification function, "a notification function taking
  a message string and a severity level from a fixed enumerated set". Its implementation
  belongs to the host; the model records the call.
\<close>

definition notify :: "string \<Rightarrow> notify_level \<Rightarrow> ExtensionUIContext \<Rightarrow> ExtensionUIContext" where
  "notify message level u = u\<lparr>notify_calls := notify_calls u @ [(message, level)]\<rparr>"

text \<open>
  What one invocation of the tool-call handler leaves behind: the value the handler's promise
  resolves to (\<open>Inr\<close>) or the exception it rejects with (\<open>Inl\<close>), and the event object and
  the context as they are once the handler is done.
\<close>

record guard_outcome =
  returned :: "js_error + js_value"
  event_after :: ToolCallEvent
  ctx_after :: ExtensionContext

text \<open>The same for the command handler, which is given the argument string and the context.\<close>

record command_outcome =
  cmd_returned :: "js_error + js_value"
  cmd_ctx_after :: ExtensionContext

section \<open>The command guard (security.ts)\<close>

text \<open>
  \<open>String.prototype.includes(searchString)\<close> with the default start position 0: true when
  \<open>searchString\<close> occurs in the string at some index, tried from the left. The empty
  search string occurs in every string.
\<close>

fun str_includes :: "string \<Rightarrow> string \<Rightarrow> bool" where
  "str_includes [] searchString = (searchString = [])"
| "str_includes (c # cs) searchString =
     (prefix searchString (c # cs) \<or> str_includes cs searchString)"

text \<open>
  The method call \<open>v.includes(searchString)\<close> on an arbitrary value \<open>v\<close>. On a string it
  is the substring search; on an array it is \<open>Array.prototype.includes\<close>, membership of
  the string among the elements; \<open>undefined\<close> and \<open>null\<close> have no properties; a boolean,
  a number and an object of plain data have no callable \<open>includes\<close>.
\<close>

fun call_includes :: "js_value \<Rightarrow> string \<Rightarrow> js_error + bool" where
  "call_includes (JString s) searchString = Inr (str_includes s searchString)"
| "call_includes (JArray vs) searchString = Inr (JString searchString \<in> set vs)"
| "call_includes JUndefined searchString = Inl TypeError"
| "call_includes JNull searchString = Inl TypeError"
| "call_includes (JBool b) searchString = Inl TypeError"
| "call_includes (JNumber n) searchString = Inl TypeError"
| "call_includes (JObject fs) searchString = Inl TypeError"

text \<open>
  Modelled from the spec: the host library's type guard \<open>isToolCallEventType(toolName, event)\<close>,
  which is imported by security.ts and not defined in this repository. The event payload
  exposes "a tool-type discriminator"; the guard compares it with the given tool name.
\<close>

definition isToolCallEventType :: "string \<Rightarrow> ToolCallEvent \<Rightarrow> bool" where
  "isToolCallEventType name event = (toolName event = name)"

text \<open>
  \<^verbatim>\<open>function isBash(event: ToolCallEvent) { return isToolCallEventType("bash", event); }\<close>
\<close>

definition isBash :: "ToolCallEvent \<Rightarrow> bool" where
  "isBash event = isToolCallEventType ''bash'' event"

text \<open>
  \<^verbatim>\<open>function containsSudo(event: BashToolCallEvent) { return event.input.command.includes("sudo"); }\<close>

  \<open>event.input.command\<close> is \<open>undefined\<close> when the input object has no such property.
\<close>

definition containsSudo :: "ToolCallEvent \<Rightarrow> js_error + bool" where
  "containsSudo event =
     (case map_of (input event) ''command'' of
        None \<Rightarrow> call_includes JUndefined ''sudo''
      | Some v \<Rightarrow> call_includes v ''sudo'')"

text \<open>
  \<^verbatim>\<open>function block(reason: string) { return { block: true, reason } }\<close>
\<close>

definition block :: "string \<Rightarrow> js_value" where
  "block reason = JObject [(''block'', JBool True), (''reason'', JString reason)]"

text \<open>
  The handler registered with \<open>pi.on("tool_call", ...)\<close>:
  \<^verbatim>\<open>
  async (event, ctx) => {
      if(!isBash(event)) return;
      if(containsSudo(event))
          return block("dangerous command, sudo is not allowed for agent" );
  }
  \<close>
  A bare \<open>return\<close> and the end of the body both give \<open>undefined\<close>. The body assigns to
  nothing and calls no method of \<open>ctx\<close>, so the event and the context come out as they
  went in; an exception raised by \<open>containsSudo\<close> leaves the handler.
\<close>

definition tool_call_handler :: "ToolCallEvent \<Rightarrow> ExtensionContext \<Rightarrow> guard_outcome" where
  "tool_call_handler event ctx =
     (if \<not> isBash event then
        \<lparr>returned = Inr JUndefined, event_after = event, ctx_after = ctx\<rparr>
      else
        (case containsSudo event of
           Inl err \<Rightarrow> \<lparr>returned = Inl err, event_after = event, ctx_after = ctx\<rparr>
         | Inr True \<Rightarrow>
             \<lparr>returned = Inr (block ''dangerous command, sudo is not allowed for agent''),
              event_after = event, ctx_after = ctx\<rparr>
         | Inr False \<Rightarrow> \<lparr>returned = Inr JUndefined, event_after = event, ctx_after = ctx\<rparr>))"

text \<open>
  Modelled from the spec: the host's dispatch of tool-call events, which is not part of this
  repository: "the host runtime invokes each registered handler, awaits its completion, and
  proceeds based on the returned decision". Events are handled one after the other; each
  invocation is given the context the previous one left. The result lists what every
  invocation returned, the events as the handler left them, and the final context.
\<close>

fun emit_tool_calls ::
  "ExtensionContext \<Rightarrow> ToolCallEvent list \<Rightarrow>
     (js_error + js_value) list \<times> ToolCallEvent list \<times> ExtensionContext" where
  "emit_tool_calls ctx [] = ([], [], ctx)"
| "emit_tool_calls ctx (event # events) =
     (let out = tool_call_handler event ctx;
          (rs, evs, ctx') = emit_tool_calls (ctx_after out) events
      in (returned out # rs, event_after out # evs, ctx'))"

section \<open>The greeting command (hello-world.ts)\<close>

text \<open>
  The handler registered with \<open>pi.registerCommand("hello-world", ...)\<close>:
  \<^verbatim>\<open>
  handler: async (_args, ctx) => {
    ctx.ui.notify("hello world", "info");
  }
  \<close>
\<close>

definition hello_world_handler :: "string \<Rightarrow> ExtensionContext \<Rightarrow> command_outcome" where
  "hello_world_handler args ctx =
     \<lparr>cmd_returned = Inr JUndefined,
      cmd_ctx_after = ctx\<lparr>ui := notify ''hello world'' Info (ui ctx)\<rparr>\<rparr>"

text \<open>
  A context in which nothing has been notified yet, for the worked examples below.
\<close>

abbreviation idle_ctx :: ExtensionContext where
  "idle_ctx \<equiv> \<lparr>ui = \<lparr>notify_calls = []\<rparr>, hasUI = True, cwd = ''/work''\<rparr>"

section \<open>Substring search\<close>

text \<open>
  The search of \<open>str_includes\<close> finds the needle exactly when the string splits into
  something, the needle, and something.
\<close>

lemma str_includes_sublist: "str_includes s ss = sublist ss s"
  by (induction s) (simp_all add: sublist_Cons_right)

lemma str_includes_iff: "str_includes s ss = (\<exists>pre post. s = pre @ ss @ post)"
  by (simp add: str_includes_sublist sublist_def)

section \<open>What one invocation of the guard does\<close>

text \<open>The handler hands the event and the context back as it got them.\<close>

lemma event_after_tool_call_handler: "event_after (tool_call_handler event ctx) = event"
  by (simp add: tool_call_handler_def split: sum.splits bool.splits)

lemma ctx_after_tool_call_handler: "ctx_after (tool_call_handler event ctx) = ctx"
  by (simp add: tool_call_handler_def split: sum.splits bool.splits)

text \<open>
  On a bash event whose \<open>command\<close> is a string, the returned value is decided by the
  substring search alone.
\<close>

lemma returned_bash_string:
  assumes "toolName event = ''bash''"
    and "map_of (input event) ''command'' = Some (JString c)"
  shows "returned (tool_call_handler event ctx) =
     (if str_includes c ''sudo''
      then Inr (block ''dangerous command, sudo is not allowed for agent'')
      else Inr JUndefined)"
  using assms
  by (simp add: tool_call_handler_def isBash_def isToolCallEventType_def containsSudo_def)

lemma returned_not_bash:
  assumes "toolName event \<noteq> ''bash''"
  shows "returned (tool_call_handler event ctx) = Inr JUndefined"
  using assms by (simp add: tool_call_handler_def isBash_def isToolCallEventType_def)

text \<open>The context plays no part in what is returned.\<close>

lemma returned_any_ctx:
  "returned (tool_call_handler event ctx1) = returned (tool_call_handler event ctx2)"
  by (simp add: tool_call_handler_def split: sum.splits bool.splits)

text \<open>The three ways an invocation can end.\<close>

lemma returned_cases:
  "returned (tool_call_handler event ctx) = Inl TypeError
   \<or> returned (tool_call_handler event ctx) = Inr JUndefined
   \<or> returned (tool_call_handler event ctx) =
       Inr (block ''dangerous command, sudo is not allowed for agent'')"
proof (cases "isBash event")
  case False
  then show ?thesis by (simp add: tool_call_handler_def)
next
  case True
  show ?thesis
  proof (cases "containsSudo event")
    case (Inl err)
    then show ?thesis using True by (cases err) (simp add: tool_call_handler_def)
  next
    case (Inr b)
    then show ?thesis using True by (cases b) (simp_all add: tool_call_handler_def)
  qed
qed

text \<open>
  The handler raises only where \<open>containsSudo\<close> does: on a bash event whose input has no
  string (or array) under \<open>command\<close>.
\<close>

lemma returned_error_only_malformed:
  assumes "returned (tool_call_handler event ctx) = Inl err"
  shows "toolName event = ''bash'' \<and> (\<forall>c. map_of (input event) ''command'' \<noteq> Some (JString c))"
proof (intro conjI allI notI)
  show "toolName event = ''bash''"
    using assms returned_not_bash [of event ctx] by auto
next
  fix c
  assume c: "map_of (input event) ''command'' = Some (JString c)"
  have "toolName event = ''bash''"
    using assms returned_not_bash [of event ctx] by auto
  from returned_bash_string [OF this c, of ctx] assms show False
    by (simp split: if_splits)
qed

section \<open>The claims about the command guard\<close>

text \<open>
  C1. For every tool-call event of the bash type whose command string contains the
  substring "sudo" (case-sensitive, anywhere in the string), the handler returns a block
  decision: an object whose \<open>block\<close> is \<open>true\<close> and whose \<open>reason\<close> is a non-empty string.
\<close>

theorem guard_blocks_sudo:
  assumes "toolName event = ''bash''"
    and "map_of (input event) ''command'' = Some (JString c)"
    and "c = pre @ ''sudo'' @ post"
  shows "\<exists>reason. returned (tool_call_handler event ctx) =
            Inr (JObject [(''block'', JBool True), (''reason'', JString reason)])
          \<and> reason \<noteq> []"
proof -
  have "str_includes c ''sudo''"
    using assms(3) str_includes_iff by blast
  then have "returned (tool_call_handler event ctx) =
      Inr (block ''dangerous command, sudo is not allowed for agent'')"
    using returned_bash_string [OF assms(1,2)] by simp
  then show ?thesis
    by (simp add: block_def)
qed

theorem guard_blocks_sudo_witness:
  "toolName \<lparr>toolCallId = ''call_7'', toolName = ''bash'',
       input = [(''command'', JString ''echo ok && sudo reboot''), (''timeout'', JNumber 30)]\<rparr>
     = ''bash''
   \<and> map_of (input \<lparr>toolCallId = ''call_7'', toolName = ''bash'',
       input = [(''command'', JString ''echo ok && sudo reboot''), (''timeout'', JNumber 30)]\<rparr>)
         ''command''
     = Some (JString ''echo ok && sudo reboot'')
   \<and> ''echo ok && sudo reboot'' = ''echo ok && '' @ ''sudo'' @ '' reboot''
   \<and> (\<exists>reason. returned (tool_call_handler \<lparr>toolCallId = ''call_7'', toolName = ''bash'',
       input = [(''command'', JString ''echo ok && sudo reboot''), (''timeout'', JNumber 30)]\<rparr>
          idle_ctx) =
            Inr (JObject [(''block'', JBool True), (''reason'', JString reason)])
          \<and> reason \<noteq> [])"
proof -
  let ?e = "\<lparr>toolCallId = ''call_7'', toolName = ''bash'',
       input = [(''command'', JString ''echo ok && sudo reboot''), (''timeout'', JNumber 30)]\<rparr>"
  have n: "toolName ?e = ''bash''" by simp
  have c: "map_of (input ?e) ''command'' = Some (JString ''echo ok && sudo reboot'')" by simp
  have s: "''echo ok && sudo reboot'' = ''echo ok && '' @ ''sudo'' @ '' reboot''" by simp
  from guard_blocks_sudo [OF n c s, of idle_ctx] n c s show ?thesis
    by blast
qed

text \<open>
  C2. For every tool-call event of the bash type whose command string does not contain the
  substring "sudo", the handler returns no decision: its promise resolves to \<open>undefined\<close>.
\<close>

theorem guard_allows_without_sudo:
  assumes "toolName event = ''bash''"
    and "map_of (input event) ''command'' = Some (JString c)"
    and "\<not> (\<exists>pre post. c = pre @ ''sudo'' @ post)"
  shows "returned (tool_call_handler event ctx) = Inr JUndefined"
proof -
  have "\<not> str_includes c ''sudo''"
    using assms(3) by (simp add: str_includes_iff)
  then show ?thesis
    using returned_bash_string [OF assms(1,2)] by simp
qed

theorem guard_allows_without_sudo_witness:
  "toolName \<lparr>toolCallId = ''call_8'', toolName = ''bash'',
       input = [(''command'', JString ''SUDO apt update'')]\<rparr> = ''bash''
   \<and> map_of (input \<lparr>toolCallId = ''call_8'', toolName = ''bash'',
       input = [(''command'', JString ''SUDO apt update'')]\<rparr>) ''command''
     = Some (JString ''SUDO apt update'')
   \<and> \<not> (\<exists>pre post. ''SUDO apt update'' = pre @ ''sudo'' @ post)
   \<and> returned (tool_call_handler \<lparr>toolCallId = ''call_8'', toolName = ''bash'',
       input = [(''command'', JString ''SUDO apt update'')]\<rparr> idle_ctx) = Inr JUndefined"
proof -
  let ?e = "\<lparr>toolCallId = ''call_8'', toolName = ''bash'',
       input = [(''command'', JString ''SUDO apt update'')]\<rparr>"
  have n: "toolName ?e = ''bash''" by simp
  have c: "map_of (input ?e) ''command'' = Some (JString ''SUDO apt update'')" by simp
  have "\<not> str_includes ''SUDO apt update'' ''sudo''" by simp
  then have s: "\<not> (\<exists>pre post. ''SUDO apt update'' = pre @ ''sudo'' @ post)"
    by (simp only: str_includes_iff not_False_eq_True)
  from guard_allows_without_sudo [OF n c s, of idle_ctx] n c s show ?thesis
    by blast
qed

text \<open>
  C3. The three examples: the bash command "sudo rm -rf /" is blocked with the reason
  "dangerous command, sudo is not allowed for agent"; the bash command "ls -la" yields no
  decision; the bash command "echo sudoku" is blocked, since the search is for the bare
  substring. Each holds whatever the call id, the other properties of the input and the
  context are.
\<close>

theorem guard_examples:
  "returned (tool_call_handler
      \<lparr>toolCallId = i, toolName = ''bash'', input = (''command'', JString ''sudo rm -rf /'') # others\<rparr>
      ctx)
     = Inr (JObject [(''block'', JBool True),
                     (''reason'', JString ''dangerous command, sudo is not allowed for agent'')])
   \<and> returned (tool_call_handler
      \<lparr>toolCallId = i, toolName = ''bash'', input = (''command'', JString ''ls -la'') # others\<rparr> ctx)
     = Inr JUndefined
   \<and> returned (tool_call_handler
      \<lparr>toolCallId = i, toolName = ''bash'', input = (''command'', JString ''echo sudoku'') # others\<rparr>
      ctx)
     = Inr (JObject [(''block'', JBool True),
                     (''reason'', JString ''dangerous command, sudo is not allowed for agent'')])"
  by (simp add: tool_call_handler_def isBash_def isToolCallEventType_def containsSudo_def
      block_def)

text \<open>
  C4. For every tool-call event whose tool name is not "bash", the handler returns no
  decision, whatever the input object holds: putting any payload in place of the input
  (one with a \<open>command\<close> full of "sudo", or one with no \<open>command\<close> at all, whose
  inspection would raise) gives the same \<open>undefined\<close>, and the event and the context are
  left as they were.
\<close>

theorem guard_ignores_other_tools:
  assumes "toolName event \<noteq> ''bash''"
  shows "tool_call_handler (event\<lparr>input := payload\<rparr>) ctx =
     \<lparr>returned = Inr JUndefined, event_after = event\<lparr>input := payload\<rparr>, ctx_after = ctx\<rparr>"
  using assms by (simp add: tool_call_handler_def isBash_def isToolCallEventType_def)

theorem guard_ignores_other_tools_witness:
  "toolName \<lparr>toolCallId = ''call_9'', toolName = ''write'', input = []\<rparr> \<noteq> ''bash''
   \<and> tool_call_handler
        (\<lparr>toolCallId = ''call_9'', toolName = ''write'', input = []\<rparr>
           \<lparr>input := [(''command'', JString ''sudo rm -rf /'')]\<rparr>) idle_ctx
     = \<lparr>returned = Inr JUndefined,
        event_after = \<lparr>toolCallId = ''call_9'', toolName = ''write'',
                       input = [(''command'', JString ''sudo rm -rf /'')]\<rparr>,
        ctx_after = idle_ctx\<rparr>
   \<and> tool_call_handler
        (\<lparr>toolCallId = ''call_9'', toolName = ''write'', input = []\<rparr>
           \<lparr>input := [(''path'', JString ''/etc/sudoers'')]\<rparr>) idle_ctx
     = \<lparr>returned = Inr JUndefined,
        event_after = \<lparr>toolCallId = ''call_9'', toolName = ''write'',
                       input = [(''path'', JString ''/etc/sudoers'')]\<rparr>,
        ctx_after = idle_ctx\<rparr>"
proof -
  let ?e = "\<lparr>toolCallId = ''call_9'', toolName = ''write'', input = []\<rparr>"
  have n: "toolName ?e \<noteq> ''bash''" by simp
  from guard_ignores_other_tools [OF n, of "[(''command'', JString ''sudo rm -rf /'')]" idle_ctx]
    guard_ignores_other_tools [OF n, of "[(''path'', JString ''/etc/sudoers'')]" idle_ctx] n
  show ?thesis by simp
qed

text \<open>
  C6. The decision is a function of the command string: two bash events with the same
  command string get the same result, even if they differ in their call id, in the other
  properties of their input, and in the context they are handled in.
\<close>

theorem guard_decision_by_command:
  assumes "toolName e1 = ''bash''" and "toolName e2 = ''bash''"
    and "map_of (input e1) ''command'' = Some (JString c)"
    and "map_of (input e2) ''command'' = Some (JString c)"
  shows "returned (tool_call_handler e1 ctx1) = returned (tool_call_handler e2 ctx2)"
  using returned_bash_string [OF assms(1,3), of ctx1] returned_bash_string [OF assms(2,4), of ctx2]
  by simp

theorem guard_decision_by_command_witness:
  "toolName \<lparr>toolCallId = ''call_1'', toolName = ''bash'',
       input = [(''command'', JString ''sudo make install'')]\<rparr> = ''bash''
   \<and> toolName \<lparr>toolCallId = ''call_2'', toolName = ''bash'',
       input = [(''timeout'', JNumber 60), (''command'', JString ''sudo make install'')]\<rparr> = ''bash''
   \<and> map_of (input \<lparr>toolCallId = ''call_1'', toolName = ''bash'',
       input = [(''command'', JString ''sudo make install'')]\<rparr>) ''command''
     = Some (JString ''sudo make install'')
   \<and> map_of (input \<lparr>toolCallId = ''call_2'', toolName = ''bash'',
       input = [(''timeout'', JNumber 60), (''command'', JString ''sudo make install'')]\<rparr>) ''command''
     = Some (JString ''sudo make install'')
   \<and> returned (tool_call_handler \<lparr>toolCallId = ''call_1'', toolName = ''bash'',
       input = [(''command'', JString ''sudo make install'')]\<rparr> idle_ctx)
     = returned (tool_call_handler \<lparr>toolCallId = ''call_2'', toolName = ''bash'',
       input = [(''timeout'', JNumber 60), (''command'', JString ''sudo make install'')]\<rparr>
         \<lparr>ui = \<lparr>notify_calls = [(''hello world'', Info)]\<rparr>, hasUI = False, cwd = ''/tmp''\<rparr>)"
proof -
  let ?e1 = "\<lparr>toolCallId = ''call_1'', toolName = ''bash'',
       input = [(''command'', JString ''sudo make install'')]\<rparr>"
  let ?e2 = "\<lparr>toolCallId = ''call_2'', toolName = ''bash'',
       input = [(''timeout'', JNumber 60), (''command'', JString ''sudo make install'')]\<rparr>"
  have n1: "toolName ?e1 = ''bash''" and n2: "toolName ?e2 = ''bash''" by simp_all
  have c1: "map_of (input ?e1) ''command'' = Some (JString ''sudo make install'')" by simp
  have c2: "map_of (input ?e2) ''command'' = Some (JString ''sudo make install'')" by simp
  from guard_decision_by_command [OF n1 n2 c1 c2, of idle_ctx
      "\<lparr>ui = \<lparr>notify_calls = [(''hello world'', Info)]\<rparr>, hasUI = False, cwd = ''/tmp''\<rparr>"]
    n1 n2 c1 c2
  show ?thesis by blast
qed

text \<open>
  C7. What the handler hands back has one of two shapes, for every event: \<open>undefined\<close>, or
  an object of exactly a boolean \<open>block\<close> and a string \<open>reason\<close>. The only other way an
  invocation can end is by raising, which returns nothing, and that happens only on a bash
  event whose input holds no command string.
\<close>

theorem guard_result_shape:
  "(\<forall>v. returned (tool_call_handler event ctx) = Inr v \<longrightarrow>
      v = JUndefined
      \<or> (\<exists>b reason. v = JObject [(''block'', JBool b), (''reason'', JString reason)]))
   \<and> (\<forall>err. returned (tool_call_handler event ctx) = Inl err \<longrightarrow>
        toolName event = ''bash''
        \<and> (\<forall>c. map_of (input event) ''command'' \<noteq> Some (JString c)))"
proof (intro conjI allI impI)
  fix v
  assume "returned (tool_call_handler event ctx) = Inr v"
  with returned_cases [of event ctx]
  have "v = JUndefined \<or> v = block ''dangerous command, sudo is not allowed for agent''"
    by auto
  then show "v = JUndefined
      \<or> (\<exists>b reason. v = JObject [(''block'', JBool b), (''reason'', JString reason)])"
    by (auto simp: block_def)
next
  fix err
  assume "returned (tool_call_handler event ctx) = Inl err"
  then show "toolName event = ''bash''"
    using returned_error_only_malformed by blast
next
  fix err c
  assume "returned (tool_call_handler event ctx) = Inl err"
  then show "map_of (input event) ''command'' \<noteq> Some (JString c)"
    using returned_error_only_malformed by blast
qed

theorem guard_result_shape_witness:
  "returned (tool_call_handler
      \<lparr>toolCallId = ''call_3'', toolName = ''bash'', input = [(''command'', JString ''sudo -i'')]\<rparr>
      idle_ctx)
     = Inr (JObject [(''block'', JBool True),
                     (''reason'', JString ''dangerous command, sudo is not allowed for agent'')])
   \<and> (JObject [(''block'', JBool True),
                (''reason'', JString ''dangerous command, sudo is not allowed for agent'')]
         = JUndefined
       \<or> (\<exists>b reason.
            JObject [(''block'', JBool True),
                     (''reason'', JString ''dangerous command, sudo is not allowed for agent'')]
            = JObject [(''block'', JBool b), (''reason'', JString reason)]))
   \<and> returned (tool_call_handler
      \<lparr>toolCallId = ''call_4'', toolName = ''bash'', input = [(''timeout'', JNumber 5)]\<rparr> idle_ctx)
     = Inl TypeError
   \<and> toolName \<lparr>toolCallId = ''call_4'', toolName = ''bash'', input = [(''timeout'', JNumber 5)]\<rparr>
     = ''bash''
   \<and> (\<forall>c. map_of (input \<lparr>toolCallId = ''call_4'', toolName = ''bash'',
                             input = [(''timeout'', JNumber 5)]\<rparr>) ''command''
            \<noteq> Some (JString c))"
proof -
  let ?e1 = "\<lparr>toolCallId = ''call_3'', toolName = ''bash'',
               input = [(''command'', JString ''sudo -i'')]\<rparr>"
  let ?e2 = "\<lparr>toolCallId = ''call_4'', toolName = ''bash'', input = [(''timeout'', JNumber 5)]\<rparr>"
  let ?v = "JObject [(''block'', JBool True),
                     (''reason'', JString ''dangerous command, sudo is not allowed for agent'')]"
  have r1: "returned (tool_call_handler ?e1 idle_ctx) = Inr ?v"
    by (simp add: tool_call_handler_def isBash_def isToolCallEventType_def containsSudo_def
        block_def)
  have r2: "returned (tool_call_handler ?e2 idle_ctx) = Inl TypeError"
    by (simp add: tool_call_handler_def isBash_def isToolCallEventType_def containsSudo_def)
  from guard_result_shape [of ?e1 idle_ctx] r1
  have s1: "?v = JUndefined
      \<or> (\<exists>b reason. ?v = JObject [(''block'', JBool b), (''reason'', JString reason)])"
    by blast
  from guard_result_shape [of ?e2 idle_ctx] r2
  have s2: "toolName ?e2 = ''bash'' \<and> (\<forall>c. map_of (input ?e2) ''command'' \<noteq> Some (JString c))"
    by blast
  from r1 s1 r2 s2 show ?thesis
    by blast
qed

text \<open>
  C9. The handler never returns an explicit allow decision: a value it returns that is not
  \<open>undefined\<close> is the object \<open>{ block: true, reason: "dangerous command, sudo is not
  allowed for agent" }\<close>. An object with \<open>block\<close> false is never returned.
\<close>

theorem guard_only_blocks:
  assumes "returned (tool_call_handler event ctx) = Inr v"
    and "v \<noteq> JUndefined"
  shows "v = JObject [(''block'', JBool True),
                      (''reason'', JString ''dangerous command, sudo is not allowed for agent'')]"
  using assms returned_cases [of event ctx] by (auto simp: block_def)

theorem guard_only_blocks_witness:
  "returned (tool_call_handler
      \<lparr>toolCallId = ''call_5'', toolName = ''bash'',
       input = [(''command'', JString ''cd /srv && sudo systemctl stop nginx'')]\<rparr> idle_ctx)
     = Inr (block ''dangerous command, sudo is not allowed for agent'')
   \<and> block ''dangerous command, sudo is not allowed for agent'' \<noteq> JUndefined
   \<and> block ''dangerous command, sudo is not allowed for agent''
     = JObject [(''block'', JBool True),
                (''reason'', JString ''dangerous command, sudo is not allowed for agent'')]"
proof -
  let ?e = "\<lparr>toolCallId = ''call_5'', toolName = ''bash'',
       input = [(''command'', JString ''cd /srv && sudo systemctl stop nginx'')]\<rparr>"
  let ?v = "block ''dangerous command, sudo is not allowed for agent''"
  have r: "returned (tool_call_handler ?e idle_ctx) = Inr ?v"
    by (simp add: tool_call_handler_def isBash_def isToolCallEventType_def containsSudo_def)
  have u: "?v \<noteq> JUndefined"
    by (simp add: block_def)
  from guard_only_blocks [OF r u] r u show ?thesis
    by blast
qed

text \<open>
  C8. The guard keeps nothing between invocations. When the host hands it a sequence of
  events one after the other, the result for each event is the result the handler gives for
  that event alone (in any context), the events come out as they went in, and so does the
  context; a single invocation likewise leaves its event and its context untouched.
\<close>

theorem guard_stateless:
  "emit_tool_calls ctx events =
     (map (\<lambda>event. returned (tool_call_handler event ctx0)) events, events, ctx)
   \<and> event_after (tool_call_handler event ctx) = event
   \<and> ctx_after (tool_call_handler event ctx) = ctx"
proof (intro conjI)
  show "emit_tool_calls ctx events =
     (map (\<lambda>event. returned (tool_call_handler event ctx0)) events, events, ctx)"
  proof (induction events)
    case Nil
    show ?case by simp
  next
    case (Cons e es)
    then show ?case
      by (simp add: Let_def ctx_after_tool_call_handler event_after_tool_call_handler
          returned_any_ctx [of e ctx ctx0])
  qed
qed (simp_all add: event_after_tool_call_handler ctx_after_tool_call_handler)

section \<open>The claims about the greeting command\<close>

text \<open>
  C5. Every invocation of the greeting command's handler, whatever its argument, makes
  exactly one call to \<open>ctx.ui.notify\<close>, with the message "hello world" and the level
  "info", and returns no value: the trace of calls grows by that one entry, nothing else
  of the context changes, and the promise resolves to \<open>undefined\<close>.
\<close>

theorem hello_world_notifies_once:
  "hello_world_handler args ctx =
     \<lparr>cmd_returned = Inr JUndefined,
      cmd_ctx_after =
        ctx\<lparr>ui := (ui ctx)\<lparr>notify_calls := notify_calls (ui ctx) @ [(''hello world'', Info)]\<rparr>\<rparr>\<rparr>
   \<and> length (notify_calls (ui (cmd_ctx_after (hello_world_handler args ctx))))
     = length (notify_calls (ui ctx)) + 1"
  by (simp add: hello_world_handler_def notify_def)

text \<open>
  C10. The greeting command's handler does not depend on its argument: any two argument
  strings give the same outcome in the same context, the single notification with the same
  message and level.
\<close>

theorem hello_world_ignores_args:
  "hello_world_handler args1 ctx = hello_world_handler args2 ctx
   \<and> notify_calls (ui (cmd_ctx_after (hello_world_handler args1 ctx)))
     = notify_calls (ui ctx) @ [(''hello world'', Info)]
   \<and> notify_calls (ui (cmd_ctx_after (hello_world_handler args2 ctx)))
     = notify_calls (ui ctx) @ [(''hello world'', Info)]"
  by (simp add: hello_world_handler_def notify_def)

end
